theory Spec2Isabelle
  imports Complex_Main
begin

section \<open>JavaScript values used by the controllers\<close>

text \<open>
  The messages of the responses are written without their accents. The controllers
  receive their inputs as strings (query strings, multipart form fields,
  header values) and turn them into numbers with \<^verbatim>\<open>parseInt(s, 10)\<close> and
  \<^verbatim>\<open>parseFloat(s)\<close>. A JavaScript Number is modelled by its exact value: a rational,
  one of the two infinities, or NaN. IEEE-754 rounding, overflow of a long digit string
  and the sign of zero are not modelled (\<open>-0\<close> is the same value as \<open>0\<close>, as it is for
  \<^verbatim>\<open>===\<close>). Strings are byte strings; of the characters JavaScript counts as white
  space only the ASCII ones are recognised.
\<close>

datatype number = NaN | PosInf | NegInf | Fin rat

definition isNaN :: "number \<Rightarrow> bool" where
  "isNaN x = (x = NaN)"

text \<open>\<^verbatim>\<open>a !== b\<close> on two Numbers: NaN differs from everything, itself included.\<close>

definition strict_neq :: "number \<Rightarrow> number \<Rightarrow> bool" where
  "strict_neq a b = (a = NaN \<or> b = NaN \<or> a \<noteq> b)"

fun js_sub :: "number \<Rightarrow> number \<Rightarrow> number" where
  "js_sub NaN y = NaN"
| "js_sub x NaN = NaN"
| "js_sub (Fin a) (Fin b) = Fin (a - b)"
| "js_sub (Fin a) PosInf = NegInf"
| "js_sub (Fin a) NegInf = PosInf"
| "js_sub PosInf PosInf = NaN"
| "js_sub NegInf NegInf = NaN"
| "js_sub PosInf y = PosInf"
| "js_sub NegInf y = NegInf"

definition inf_of_sign :: "bool \<Rightarrow> number" where
  "inf_of_sign positive = (if positive then PosInf else NegInf)"

fun js_mul :: "number \<Rightarrow> number \<Rightarrow> number" where
  "js_mul NaN y = NaN"
| "js_mul x NaN = NaN"
| "js_mul (Fin a) (Fin b) = Fin (a * b)"
| "js_mul (Fin a) PosInf = (if a = 0 then NaN else inf_of_sign (0 < a))"
| "js_mul (Fin a) NegInf = (if a = 0 then NaN else inf_of_sign (a < 0))"
| "js_mul PosInf (Fin b) = (if b = 0 then NaN else inf_of_sign (0 < b))"
| "js_mul NegInf (Fin b) = (if b = 0 then NaN else inf_of_sign (b < 0))"
| "js_mul PosInf PosInf = PosInf"
| "js_mul NegInf NegInf = PosInf"
| "js_mul PosInf NegInf = NegInf"
| "js_mul NegInf PosInf = NegInf"

fun js_div :: "number \<Rightarrow> number \<Rightarrow> number" where
  "js_div NaN y = NaN"
| "js_div x NaN = NaN"
| "js_div (Fin a) (Fin b) =
     (if b = 0 then (if a = 0 then NaN else inf_of_sign (0 < a)) else Fin (a / b))"
| "js_div (Fin a) PosInf = Fin 0"
| "js_div (Fin a) NegInf = Fin 0"
| "js_div PosInf (Fin b) = inf_of_sign (0 \<le> b)"
| "js_div NegInf (Fin b) = inf_of_sign (b < 0)"
| "js_div PosInf y = NaN"
| "js_div NegInf y = NaN"

text \<open>\<^verbatim>\<open>Math.ceil\<close>.\<close>

fun js_ceil :: "number \<Rightarrow> number" where
  "js_ceil (Fin a) = Fin (of_int \<lceil>a\<rceil>)"
| "js_ceil x = x"

subsection \<open>Strings\<close>

definition isWhite :: "char \<Rightarrow> bool" where
  "isWhite c = (c \<in> set [CHR 0x09, CHR 0x0A, CHR 0x0B, CHR 0x0C, CHR 0x0D, CHR 0x20])"

definition isDigit :: "char \<Rightarrow> bool" where
  "isDigit c = (48 \<le> (of_char c :: nat) \<and> (of_char c :: nat) \<le> 57)"

definition digitVal :: "char \<Rightarrow> nat" where
  "digitVal c = of_char c - 48"

definition digitsVal :: "string \<Rightarrow> nat" where
  "digitsVal ds = foldl (\<lambda>a c. 10 * a + digitVal c) 0 ds"

text \<open>\<^verbatim>\<open>String.prototype.trim\<close>.\<close>

definition trim :: "string \<Rightarrow> string" where
  "trim s = rev (dropWhile isWhite (rev (dropWhile isWhite s)))"

text \<open>\<^verbatim>\<open>s.startsWith(p)\<close>.\<close>

definition startsWith :: "string \<Rightarrow> string \<Rightarrow> bool" where
  "startsWith s p = (take (length p) s = p)"

text \<open>\<^verbatim>\<open>s.split(c)\<close> for a one-character separator: never the empty list.\<close>

fun split_on :: "char \<Rightarrow> string \<Rightarrow> string list" where
  "split_on c [] = [[]]"
| "split_on c (x # xs) =
     (if x = c then [] # split_on c xs
      else (case split_on c xs of w # ws \<Rightarrow> (x # w) # ws | [] \<Rightarrow> [[x]]))"

text \<open>A leading sign: whether it is a minus, and what follows it.\<close>

fun takeSign :: "string \<Rightarrow> bool \<times> string" where
  "takeSign [] = (False, [])"
| "takeSign (c # cs) =
     (if c = CHR ''-'' then (True, cs) else if c = CHR ''+'' then (False, cs) else (False, c # cs))"

text \<open>
  \<^verbatim>\<open>parseInt(s, 10)\<close>: white space is skipped, a sign is read, then the longest run of
  decimal digits; no digit at all gives NaN. What follows the digits is ignored.
\<close>

definition parseInt10 :: "string \<Rightarrow> number" where
  "parseInt10 s =
     (let (minus, rest) = takeSign (dropWhile isWhite s);
          Z = takeWhile isDigit rest
      in if Z = [] then NaN
         else Fin (if minus then - of_nat (digitsVal Z) else of_nat (digitsVal Z)))"

text \<open>The exponent part of a decimal literal, when there is a complete one.\<close>

fun exponentPart :: "string \<Rightarrow> int" where
  "exponentPart [] = 0"
| "exponentPart (e # cs) =
     (if e = CHR ''e'' \<or> e = CHR ''E'' then
        (let (minus, rest) = takeSign cs; ds = takeWhile isDigit rest
         in if ds = [] then 0 else if minus then - int (digitsVal ds) else int (digitsVal ds))
      else 0)"

definition scale10 :: "rat \<Rightarrow> int \<Rightarrow> rat" where
  "scale10 m e = (if 0 \<le> e then m * 10 ^ nat e else m / 10 ^ nat (- e))"

text \<open>
  \<^verbatim>\<open>parseFloat(s)\<close>: white space is skipped, then the longest prefix that is a decimal
  literal is read: a sign, then \<^verbatim>\<open>Infinity\<close> or digits with an optional fraction and an
  optional exponent. No such prefix gives NaN.
\<close>

definition parseFloat :: "string \<Rightarrow> number" where
  "parseFloat s =
     (let (minus, rest) = takeSign (dropWhile isWhite s) in
      if startsWith rest ''Infinity'' then inf_of_sign (\<not> minus)
      else
        (let ip = takeWhile isDigit rest;
             r1 = dropWhile isDigit rest;
             dot = (r1 \<noteq> [] \<and> hd r1 = CHR ''.'');
             fp = (if dot then takeWhile isDigit (tl r1) else []);
             r2 = (if dot then dropWhile isDigit (tl r1) else r1)
         in if ip = [] \<and> fp = [] then NaN
            else
              (let m = of_nat (digitsVal ip) + of_nat (digitsVal fp) / 10 ^ length fp;
                   v = scale10 m (exponentPart r2)
               in Fin (if minus then - v else v))))"

text \<open>A value of the request that may be absent: \<^verbatim>\<open>undefined\<close> is \<open>None\<close>.\<close>

definition truthy :: "string option \<Rightarrow> bool" where
  "truthy v = (case v of None \<Rightarrow> False | Some s \<Rightarrow> s \<noteq> [])"

text \<open>\<^verbatim>\<open>ToString\<close> of such a value, as \<^verbatim>\<open>parseFloat\<close> and \<^verbatim>\<open>parseInt\<close> apply it.\<close>

definition toStringJS :: "string option \<Rightarrow> string" where
  "toStringJS v = (case v of None \<Rightarrow> ''undefined'' | Some s \<Rightarrow> s)"


section \<open>The Product collection\<close>

text \<open>
  A stored product, as the schema declares it. The references to other collections are
  ObjectIds, kept as their strings. Mongoose's Number cast refuses NaN, so a stored
  \<open>PrecioVenta\<close> is never NaN; the theorems that need it say so.
\<close>

record product =
  ident :: string
  NombreProducto :: string
  PrecioVenta :: number
  imagen :: "string option"
  stock :: number
  idMarca :: string
  idModelo :: "string option"
  idColor :: "string option"
  idTalla :: "string option"
  createdAt :: nat

text \<open>The filter document \<^verbatim>\<open>filterObject\<close> that \<^verbatim>\<open>getAllProducts\<close> builds.\<close>

record regex_cond =
  regex :: string
  options :: string

record price_range =
  gte :: "number option"
  lte :: "number option"

record filterObject =
  f_NombreProducto :: "regex_cond option"
  f_idMarca :: "string option"
  f_idColor :: "string option"
  f_PrecioVenta :: "price_range option"

datatype sortObject = PrecioVenta_asc | PrecioVenta_desc | createdAt_desc

text \<open>
  The fields \<^verbatim>\<open>updateProduct\<close> sets. For the name, the brand and the image \<open>None\<close>
  is a field left \<^verbatim>\<open>undefined\<close>; for the three optional references it is \<^verbatim>\<open>null\<close>.
\<close>

record updateData =
  u_NombreProducto :: "string option"
  u_PrecioVenta :: number
  u_stock :: number
  u_idMarca :: "string option"
  u_idModelo :: "string option"
  u_idColor :: "string option"
  u_idTalla :: "string option"
  u_imagen :: "string option"

text \<open>
  The database behind the \<^verbatim>\<open>Product\<close> model. The documents are a list; what the
  database library decides is a parameter of the store: which documents a filter
  selects (\<open>sat\<close>), whether a filter or an identifier can be cast to the schema's types
  (\<open>filter_error\<close>, \<open>id_error\<close>), what a cursor does with a sort key, a skip and a limit
  (\<open>cursor\<close>), and which updates the validators refuse (\<open>update_error\<close>). An error is
  its message.
\<close>

record product_store =
  docs :: "product list"
  sat :: "filterObject \<Rightarrow> product \<Rightarrow> bool"
  filter_error :: "filterObject \<Rightarrow> string option"
  id_error :: "string \<Rightarrow> string option"
  cursor :: "sortObject \<Rightarrow> number \<Rightarrow> number \<Rightarrow> product list \<Rightarrow> string + product list"
  update_error :: "updateData \<Rightarrow> string option"

text \<open>\<^verbatim>\<open>Product.find(filter)\<close> with no cursor option: every selected document.\<close>

definition find_all :: "product_store \<Rightarrow> filterObject \<Rightarrow> string + product list" where
  "find_all S f =
     (case filter_error S f of Some e \<Rightarrow> Inl e | None \<Rightarrow> Inr (filter (sat S f) (docs S)))"

text \<open>\<^verbatim>\<open>Product.countDocuments(filter)\<close>.\<close>

definition countDocuments :: "product_store \<Rightarrow> filterObject \<Rightarrow> string + nat" where
  "countDocuments S f =
     (case filter_error S f of Some e \<Rightarrow> Inl e
      | None \<Rightarrow> Inr (length (filter (sat S f) (docs S))))"

text \<open>\<^verbatim>\<open>Product.find(filter).sort(s).skip(k).limit(n)\<close>.\<close>

definition find_page ::
  "product_store \<Rightarrow> filterObject \<Rightarrow> sortObject \<Rightarrow> number \<Rightarrow> number \<Rightarrow> string + product list" where
  "find_page S f so k n =
     (case find_all S f of Inl e \<Rightarrow> Inl e | Inr ds \<Rightarrow> cursor S so k n ds)"

section \<open>productController: getAllProducts\<close>

text \<open>\<^verbatim>\<open>req.query\<close>: each parameter is a string or absent.\<close>

record query =
  search :: "string option"
  marca :: "string option"
  color :: "string option"
  minPrice :: "string option"
  maxPrice :: "string option"
  sort_param :: "string option"
  page :: "string option"
  limit :: "string option"

text \<open>
  The price condition: present when \<^verbatim>\<open>minPrice || maxPrice\<close>, with a bound for each
  of the two that is truthy, the bound being whatever \<^verbatim>\<open>parseFloat\<close> returns.
\<close>

definition priceFilter :: "query \<Rightarrow> price_range option" where
  "priceFilter q =
     (if truthy (minPrice q) \<or> truthy (maxPrice q) then
        Some \<lparr> gte = (if truthy (minPrice q) then Some (parseFloat (toStringJS (minPrice q))) else None),
               lte = (if truthy (maxPrice q) then Some (parseFloat (toStringJS (maxPrice q))) else None) \<rparr>
      else None)"

definition filterObject_of :: "query \<Rightarrow> filterObject" where
  "filterObject_of q =
     \<lparr> f_NombreProducto =
         (if truthy (search q) then Some \<lparr> regex = toStringJS (search q), options = ''i'' \<rparr> else None),
       f_idMarca = (if truthy (marca q) then marca q else None),
       f_idColor = (if truthy (color q) then color q else None),
       f_PrecioVenta = priceFilter q \<rparr>"

text \<open>The \<^verbatim>\<open>switch (sort)\<close>, with \<^verbatim>\<open>'newest'\<close> for an absent parameter.\<close>

definition sortObject_of :: "query \<Rightarrow> sortObject" where
  "sortObject_of q =
     (let s = (case sort_param q of None \<Rightarrow> ''newest'' | Some v \<Rightarrow> v) in
      if s = ''price-asc'' then PrecioVenta_asc
      else if s = ''price-desc'' then PrecioVenta_desc
      else createdAt_desc)"

text \<open>
  The destructuring defaults \<^verbatim>\<open>page = 1\<close> and \<^verbatim>\<open>limit = 8\<close> apply to an absent
  parameter only; \<^verbatim>\<open>parseInt\<close> then reads the default through its string.
\<close>

definition pageNum_of :: "query \<Rightarrow> number" where
  "pageNum_of q = parseInt10 (case page q of None \<Rightarrow> ''1'' | Some v \<Rightarrow> v)"

definition limitNum_of :: "query \<Rightarrow> number" where
  "limitNum_of q = parseInt10 (case limit q of None \<Rightarrow> ''8'' | Some v \<Rightarrow> v)"

definition skip_of :: "query \<Rightarrow> number" where
  "skip_of q = js_mul (js_sub (pageNum_of q) (Fin 1)) (limitNum_of q)"

datatype list_body =
    ProductPage (products: "product list") (currentPage: number) (totalPages: number)
      (totalProducts: nat)
  | ListError string string

record 'b response =
  status :: nat
  body :: 'b

text \<open>
  The handler: the count, then the page, both on \<^verbatim>\<open>filterObject\<close>; an error of
  either call reaches the \<^verbatim>\<open>catch\<close> and is answered with status 500. The
  \<^verbatim>\<open>populate\<close> calls only decorate the documents returned and are left out.
\<close>

definition getAllProducts :: "product_store \<Rightarrow> query \<Rightarrow> list_body response" where
  "getAllProducts S q =
     (let filterObj = filterObject_of q;
          sortObj = sortObject_of q;
          pageNum = pageNum_of q;
          limitNum = limitNum_of q;
          skip = skip_of q
      in case countDocuments S filterObj of
           Inl e \<Rightarrow> \<lparr> status = 500, body = ListError ''Error al obtener los productos'' e \<rparr>
         | Inr cnt \<Rightarrow>
             (let pages = js_ceil (js_div (Fin (of_nat cnt)) limitNum)
              in case find_page S filterObj sortObj skip limitNum of
                   Inl e \<Rightarrow> \<lparr> status = 500, body = ListError ''Error al obtener los productos'' e \<rparr>
                 | Inr ps \<Rightarrow>
                     \<lparr> status = 200,
                       body = ProductPage ps pageNum pages cnt \<rparr>))"


subsection \<open>A store to run the handlers on\<close>

text \<open>
  One reading of the store's side, used where a handler is run on concrete data: a
  pattern without metacharacters selects the names that contain it, letter case
  ignored; a NaN bound cannot be cast; a cursor sorts on the key, then skips and
  limits, and refuses a skip or a limit that is not a natural number.
\<close>

definition toLower :: "char \<Rightarrow> char" where
  "toLower c = (if 65 \<le> (of_char c :: nat) \<and> (of_char c :: nat) \<le> 90
                then char_of ((of_char c :: nat) + 32) else c)"

fun contains :: "string \<Rightarrow> string \<Rightarrow> bool" where
  "contains [] p = (p = [])"
| "contains (c # cs) p = (startsWith (c # cs) p \<or> contains cs p)"

fun number_le :: "number \<Rightarrow> number \<Rightarrow> bool" where
  "number_le NaN y = False"
| "number_le x NaN = False"
| "number_le NegInf y = True"
| "number_le x PosInf = True"
| "number_le (Fin a) (Fin b) = (a \<le> b)"
| "number_le x y = False"

definition example_sat :: "filterObject \<Rightarrow> product \<Rightarrow> bool" where
  "example_sat f p =
     ((case f_NombreProducto f of None \<Rightarrow> True
       | Some r \<Rightarrow> contains (map toLower (NombreProducto p)) (map toLower (regex r)))
      \<and> (case f_idMarca f of None \<Rightarrow> True | Some m \<Rightarrow> idMarca p = m)
      \<and> (case f_idColor f of None \<Rightarrow> True | Some c \<Rightarrow> idColor p = Some c)
      \<and> (case f_PrecioVenta f of None \<Rightarrow> True
         | Some r \<Rightarrow>
             (case gte r of None \<Rightarrow> True | Some b \<Rightarrow> number_le b (PrecioVenta p))
             \<and> (case lte r of None \<Rightarrow> True | Some b \<Rightarrow> number_le (PrecioVenta p) b)))"

definition example_filter_error :: "filterObject \<Rightarrow> string option" where
  "example_filter_error f =
     (case f_PrecioVenta f of None \<Rightarrow> None
      | Some r \<Rightarrow> if gte r = Some NaN \<or> lte r = Some NaN
                  then Some ''Cast to Number failed'' else None)"

definition natural_of :: "number \<Rightarrow> nat option" where
  "natural_of x =
     (case x of Fin a \<Rightarrow> (if 0 \<le> a \<and> of_int \<lfloor>a\<rfloor> = a then Some (nat \<lfloor>a\<rfloor>) else None)
      | _ \<Rightarrow> None)"

fun insert_by :: "(product \<Rightarrow> product \<Rightarrow> bool) \<Rightarrow> product \<Rightarrow> product list \<Rightarrow> product list" where
  "insert_by le x [] = [x]"
| "insert_by le x (y # ys) = (if le x y then x # y # ys else y # insert_by le x ys)"

definition sort_by :: "(product \<Rightarrow> product \<Rightarrow> bool) \<Rightarrow> product list \<Rightarrow> product list" where
  "sort_by le xs = foldr (insert_by le) xs []"

definition example_order :: "sortObject \<Rightarrow> product \<Rightarrow> product \<Rightarrow> bool" where
  "example_order so x y =
     (case so of
        PrecioVenta_asc \<Rightarrow> number_le (PrecioVenta x) (PrecioVenta y)
      | PrecioVenta_desc \<Rightarrow> number_le (PrecioVenta y) (PrecioVenta x)
      | createdAt_desc \<Rightarrow> createdAt y \<le> createdAt x)"

definition example_cursor ::
  "sortObject \<Rightarrow> number \<Rightarrow> number \<Rightarrow> product list \<Rightarrow> string + product list" where
  "example_cursor so k n ds =
     (case (natural_of k, natural_of n) of
        (Some k', Some n') \<Rightarrow> Inr (take n' (drop k' (sort_by (example_order so) ds)))
      | _ \<Rightarrow> Inl ''bad cursor option'')"

definition example_update_error :: "updateData \<Rightarrow> string option" where
  "example_update_error u =
     (if number_le (Fin 0) (u_PrecioVenta u) then None else Some ''Validation failed'')"

definition example_store :: "product list \<Rightarrow> product_store" where
  "example_store ds =
     \<lparr> docs = ds, sat = example_sat, filter_error = example_filter_error,
       id_error = (\<lambda>i. None), cursor = example_cursor,
       update_error = example_update_error \<rparr>"

text \<open>The decimal numeral of a natural number, as a client writes a page number.\<close>

fun decimal :: "nat \<Rightarrow> string" where
  "decimal n =
     (if n < 10 then [char_of (48 + n)] else decimal (n div 10) @ [char_of (48 + n mod 10)])"

declare decimal.simps [simp del]


definition example_product :: "nat \<Rightarrow> product" where
  "example_product n =
     \<lparr> ident = decimal n, NombreProducto = ''Shoe '' @ decimal n,
       PrecioVenta = Fin (of_nat (10 + n)), imagen = None, stock = Fin 5,
       idMarca = ''m1'', idModelo = None, idColor = None, idTalla = None, createdAt = n \<rparr>"

definition example_query :: query where
  "example_query =
     \<lparr> search = Some ''shoe'', marca = None, color = None, minPrice = Some ''10'',
       maxPrice = Some ''50'', sort_param = None, page = Some ''2'', limit = Some ''8'' \<rparr>"


definition example_db :: product_store where
  "example_db = example_store (map example_product [1..<21])"

definition bad_query :: query where
  "bad_query =
     \<lparr> search = None, marca = None, color = None, minPrice = Some ''abc'',
       maxPrice = None, sort_param = None, page = Some ''abc'', limit = None \<rparr>"

section \<open>productController: updateProduct\<close>

text \<open>
  \<^verbatim>\<open>req.body\<close> of a product form and the uploaded image \<^verbatim>\<open>req.file\<close>: its Cloudinary
  URL (\<open>path\<close>) and public id (\<open>filename\<close>).
\<close>

record product_body =
  b_NombreProducto :: "string option"
  b_PrecioVenta :: "string option"
  b_stock :: "string option"
  b_idMarca :: "string option"
  b_idModelo :: "string option"
  b_idColor :: "string option"
  b_idTalla :: "string option"

record upload_file =
  path :: string
  filename :: string

text \<open>
  What a handler asks of the image host and of the mailer, in the order it asks:
  \<^verbatim>\<open>cloudinaryInstance.uploader.destroy(publicId)\<close> and
  \<^verbatim>\<open>sendPriceChangeEmail(updatedProduct, oldPrice)\<close>. Neither is awaited.
\<close>

datatype effect = Destroy string | PriceChangeEmail product number

definition docById :: "product list \<Rightarrow> string \<Rightarrow> product option" where
  "docById ds i = find (\<lambda>p. ident p = i) ds"

text \<open>\<^verbatim>\<open>Product.findById(id).lean()\<close>.\<close>

definition findById :: "product_store \<Rightarrow> string \<Rightarrow> string + product option" where
  "findById S i = (case id_error S i of Some e \<Rightarrow> Inl e | None \<Rightarrow> Inr (docById (docs S) i))"

text \<open>
  What an update document does to a stored product: a field left \<^verbatim>\<open>undefined\<close> in
  \<open>updateData\<close> (name, brand, image) is taken to be dropped from the update, so the
  stored value stays; the price and the stock are set; the three optional references
  are set, to null when \<open>None\<close>.
\<close>

definition applyUpdate :: "updateData \<Rightarrow> product \<Rightarrow> product" where
  "applyUpdate u p =
     p \<lparr> NombreProducto := (case u_NombreProducto u of None \<Rightarrow> NombreProducto p | Some n \<Rightarrow> n),
         PrecioVenta := u_PrecioVenta u,
         stock := u_stock u,
         idMarca := (case u_idMarca u of None \<Rightarrow> idMarca p | Some m \<Rightarrow> m),
         idModelo := u_idModelo u,
         idColor := u_idColor u,
         idTalla := u_idTalla u,
         imagen := (case u_imagen u of None \<Rightarrow> imagen p | Some i \<Rightarrow> Some i) \<rparr>"

fun replaceFirst :: "string \<Rightarrow> (product \<Rightarrow> product) \<Rightarrow> product list \<Rightarrow> product list" where
  "replaceFirst i f [] = []"
| "replaceFirst i f (p # ps) = (if ident p = i then f p # ps else p # replaceFirst i f ps)"

text \<open>
  \<^verbatim>\<open>Product.findByIdAndUpdate(id, updateData, { new: true, runValidators: true })\<close>:
  the updated document, or null, and the collection afterwards.
\<close>

definition findByIdAndUpdate ::
  "product_store \<Rightarrow> string \<Rightarrow> updateData \<Rightarrow> string + (product option \<times> product_store)" where
  "findByIdAndUpdate S i u =
     (case id_error S i of Some e \<Rightarrow> Inl e
      | None \<Rightarrow>
          (case update_error S u of Some e \<Rightarrow> Inl e
           | None \<Rightarrow>
               Inr (map_option (applyUpdate u) (docById (docs S) i),
                    S \<lparr> docs := replaceFirst i (applyUpdate u) (docs S) \<rparr>)))"

text \<open>\<^verbatim>\<open>xs.indexOf(x)\<close>, \<^verbatim>\<open>xs.join(c)\<close> and \<^verbatim>\<open>s.lastIndexOf(c)\<close>; \<open>None\<close> is \<open>-1\<close>.\<close>

fun indexOf :: "'a list \<Rightarrow> 'a \<Rightarrow> nat option" where
  "indexOf [] x = None"
| "indexOf (y # ys) x = (if y = x then Some 0 else map_option Suc (indexOf ys x))"

fun join :: "char \<Rightarrow> string list \<Rightarrow> string" where
  "join c [] = []"
| "join c [w] = w"
| "join c (w # ws) = w @ c # join c ws"

definition lastIndexOf :: "string \<Rightarrow> char \<Rightarrow> nat option" where
  "lastIndexOf s c =
     (case indexOf (rev s) c of None \<Rightarrow> None | Some k \<Rightarrow> Some (length s - 1 - k))"

text \<open>
  The public id of a stored image, from its URL: from the folder segment on, without
  the extension. Without the folder in the URL nothing is deleted; without a dot
  \<^verbatim>\<open>substring(0, -1)\<close> is the empty string, and nothing is deleted either.
\<close>

definition publicIdOf :: "string \<Rightarrow> string option" where
  "publicIdOf url =
     (let urlParts = split_on CHR ''/'' url in
      case indexOf urlParts ''prostore_products'' of
        None \<Rightarrow> None
      | Some folderIndex \<Rightarrow>
          (let withExt = join CHR ''/'' (drop folderIndex urlParts);
               publicId = take (case lastIndexOf withExt CHR ''.'' of None \<Rightarrow> 0 | Some k \<Rightarrow> k) withExt
           in if publicId \<noteq> [] then Some publicId else None))"

datatype product_reply = Updated product | Message string | Failed string string

text \<open>The \<^verbatim>\<open>catch\<close> of \<^verbatim>\<open>updateProduct\<close>: the image just uploaded is deleted again.\<close>

definition updateFailed ::
  "product_store \<Rightarrow> upload_file option \<Rightarrow> effect list \<Rightarrow> string
     \<Rightarrow> product_reply response \<times> effect list \<times> product_store" where
  "updateFailed S file effs e =
     (\<lparr> status = 500, body = Failed ''Error al actualizar el producto'' e \<rparr>,
      effs @ (case file of
                None \<Rightarrow> []
              | Some f \<Rightarrow> if filename f \<noteq> [] then [Destroy (filename f)] else []),
      S)"

text \<open>
  The object \<^verbatim>\<open>updateData\<close>: a price or a stock that does not parse keeps the value
  read before the update; an uploaded image replaces the URL.
\<close>

definition updateData_of :: "product_body \<Rightarrow> product \<Rightarrow> upload_file option \<Rightarrow> updateData" where
  "updateData_of b productBeforeUpdate file =
     (let numericPrecioVenta = parseFloat (toStringJS (b_PrecioVenta b));
          numericStock = parseInt10 (toStringJS (b_stock b))
      in \<lparr> u_NombreProducto = b_NombreProducto b,
           u_PrecioVenta = (if isNaN numericPrecioVenta then PrecioVenta productBeforeUpdate
                            else numericPrecioVenta),
           u_stock = (if isNaN numericStock then stock productBeforeUpdate else numericStock),
           u_idMarca = b_idMarca b,
           u_idModelo = (if truthy (b_idModelo b) then b_idModelo b else None),
           u_idColor = (if truthy (b_idColor b) then b_idColor b else None),
           u_idTalla = (if truthy (b_idTalla b) then b_idTalla b else None),
           u_imagen = map_option path file \<rparr>)"

text \<open>With a new image, the old one is deleted at the image host.\<close>

definition oldImageCleanup :: "upload_file option \<Rightarrow> product \<Rightarrow> effect list" where
  "oldImageCleanup file productBeforeUpdate =
     (let oldImagePath = imagen productBeforeUpdate in
      case file of
        None \<Rightarrow> []
      | Some f \<Rightarrow>
          (if truthy oldImagePath then
             (case publicIdOf (toStringJS oldImagePath) of
                None \<Rightarrow> [] | Some publicId \<Rightarrow> [Destroy publicId])
           else []))"

text \<open>
  The handler. It returns the response, the requests made to the image host and the
  mailer, and the store afterwards. A null result of the update makes the read of
  its price throw, which the \<^verbatim>\<open>catch\<close> answers.
\<close>

definition updateProduct ::
  "product_store \<Rightarrow> string \<Rightarrow> product_body \<Rightarrow> upload_file option
     \<Rightarrow> product_reply response \<times> effect list \<times> product_store" where
  "updateProduct S i b file =
     (case findById S i of
        Inl e \<Rightarrow> updateFailed S file [] e
      | Inr None \<Rightarrow> (\<lparr> status = 404, body = Message ''Producto no encontrado'' \<rparr>, [], S)
      | Inr (Some productBeforeUpdate) \<Rightarrow>
          (let oldPrice = PrecioVenta productBeforeUpdate;
               upd = updateData_of b productBeforeUpdate file;
               cleanup = oldImageCleanup file productBeforeUpdate
           in case findByIdAndUpdate S i upd of
                Inl e \<Rightarrow> updateFailed S file cleanup e
              | Inr (None, S') \<Rightarrow>
                  updateFailed S' file cleanup ''Cannot read properties of null''
              | Inr (Some updatedProduct, S') \<Rightarrow>
                  (let newPrice = PrecioVenta updatedProduct;
                       notice = (if strict_neq oldPrice newPrice
                                 then [PriceChangeEmail updatedProduct oldPrice] else [])
                   in (\<lparr> status = 200, body = Updated updatedProduct \<rparr>,
                       cleanup @ notice, S'))))"

text \<open>The stored price of the product with a given identifier.\<close>

definition priceAt :: "product_store \<Rightarrow> string \<Rightarrow> number option" where
  "priceAt S i = map_option PrecioVenta (docById (docs S) i)"

definition example_body :: product_body where
  "example_body =
     \<lparr> b_NombreProducto = Some ''Shoe 3'', b_PrecioVenta = Some ''abc'', b_stock = Some ''7'',
       b_idMarca = Some ''m1'', b_idModelo = None, b_idColor = None, b_idTalla = None \<rparr>"

section \<open>productController: uploadMassProducts\<close>




























section \<open>genericController\<close>

text \<open>An error thrown by the database library: its name, its message, its code if any.\<close>

record db_error =
  err_name :: string
  err_message :: string
  err_code :: "nat option"

text \<open>
  The Mongoose model a controller is built from, as the four calls the factory makes:
  \<^verbatim>\<open>new Model(body).save()\<close>, \<^verbatim>\<open>Model.find().sort({ nombre: 1 })\<close>,
  \<^verbatim>\<open>Model.findByIdAndUpdate(id, body, { new: true, runValidators: true })\<close> and
  \<^verbatim>\<open>Model.findByIdAndDelete(id)\<close>. Each throws (\<open>Inl\<close>) or returns; the last two
  return null (\<open>None\<close>) when no document has the identifier.
\<close>

record ('p, 'd) model =
  m_save :: "'p \<Rightarrow> db_error + 'd"
  m_find :: "db_error + 'd list"
  m_findByIdAndUpdate :: "string \<Rightarrow> 'p \<Rightarrow> db_error + 'd option"
  m_findByIdAndDelete :: "string \<Rightarrow> db_error + 'd option"

datatype 'd crud_reply =
    Item 'd
  | Items "'d list"
  | Msg string
  | Deleted string string
  | CrudError string string

definition handleError :: "db_error \<Rightarrow> string \<Rightarrow> 'd crud_reply response" where
  "handleError error msg = \<lparr> status = 500, body = CrudError msg (err_message error) \<rparr>"

definition createOne :: "('p, 'd) model \<Rightarrow> 'p \<Rightarrow> 'd crud_reply response" where
  "createOne M req_body =
     (case m_save M req_body of
        Inr savedItem \<Rightarrow> \<lparr> status = 201, body = Item savedItem \<rparr>
      | Inl error \<Rightarrow> handleError error ''Error al crear el item'')"

definition getAll :: "('p, 'd) model \<Rightarrow> 'd crud_reply response" where
  "getAll M =
     (case m_find M of
        Inr items \<Rightarrow> \<lparr> status = 200, body = Items items \<rparr>
      | Inl error \<Rightarrow> handleError error ''Error al obtener los items'')"



text \<open>A client error is a status from 400 to 499.\<close>

definition isClientError :: "nat \<Rightarrow> bool" where
  "isClientError s = (400 \<le> s \<and> s < 500)"

subsection \<open>The Marca model over a list of documents\<close>

text \<open>
  The brand schema: \<open>nombre\<close> is required, unique and trimmed. The model below keeps
  the documents in a list. The validators look at the fields of the request only and
  run before the document is looked up; the unique index is checked when a document
  is written.
\<close>

record marca =
  marca_id :: string
  nombre :: string

record marca_body =
  body_nombre :: "string option"

definition nombreRequired :: db_error where
  "nombreRequired =
     \<lparr> err_name = ''ValidationError'', err_message = ''El nombre de la marca es obligatorio'',
       err_code = None \<rparr>"

definition duplicateKey :: db_error where
  "duplicateKey =
     \<lparr> err_name = ''MongoServerError'', err_message = ''E11000 duplicate key error'',
       err_code = Some 11000 \<rparr>"

definition marcaById :: "marca list \<Rightarrow> string \<Rightarrow> marca option" where
  "marcaById ds i = find (\<lambda>d. marca_id d = i) ds"

definition marcaSave :: "marca list \<Rightarrow> string \<Rightarrow> marca_body \<Rightarrow> db_error + marca" where
  "marcaSave ds fresh b =
     (case body_nombre b of
        None \<Rightarrow> Inl nombreRequired
      | Some n \<Rightarrow>
          if trim n = [] then Inl nombreRequired
          else if trim n \<in> set (map nombre ds) then Inl duplicateKey
          else Inr \<lparr> marca_id = fresh, nombre = trim n \<rparr>)"

definition marcaUpdate :: "marca list \<Rightarrow> string \<Rightarrow> marca_body \<Rightarrow> db_error + marca option" where
  "marcaUpdate ds i b =
     (case body_nombre b of
        None \<Rightarrow> Inr (marcaById ds i)
      | Some n \<Rightarrow>
          if trim n = [] then Inl nombreRequired
          else
            (case marcaById ds i of
               None \<Rightarrow> Inr None
             | Some d \<Rightarrow>
                 if trim n \<in> set (map nombre (filter (\<lambda>x. marca_id x \<noteq> i) ds))
                 then Inl duplicateKey
                 else Inr (Some (d \<lparr> nombre := trim n \<rparr>))))"

definition marcaModel :: "marca list \<Rightarrow> string \<Rightarrow> (marca_body, marca) model" where
  "marcaModel ds fresh =
     \<lparr> m_save = marcaSave ds fresh,
       m_find = Inr ds,
       m_findByIdAndUpdate = marcaUpdate ds,
       m_findByIdAndDelete = (\<lambda>i. Inr (marcaById ds i)) \<rparr>"

definition example_marcas :: "marca list" where
  "example_marcas = [\<lparr> marca_id = ''m1'', nombre = ''Acme'' \<rparr>]"

section \<open>authMiddleware: protect\<close>

text \<open>The payload of a verified token; \<^verbatim>\<open>decoded.id\<close> may be missing from it.\<close>

record jwt_payload =
  payload_id :: "string option"
  payload_role :: "string option"

datatype auth_reply = AuthMessage string

text \<open>
  What the middleware did: whether it called \<^verbatim>\<open>next()\<close>, the \<^verbatim>\<open>req.userId\<close> it
  attached, and the responses it sent, in order.
\<close>

record auth_outcome =
  next_called :: bool
  userId :: "string option"
  sent :: "auth_reply response list"

text \<open>\<^verbatim>\<open>xs[1]\<close>: \<^verbatim>\<open>undefined\<close> for a list of fewer than two elements.\<close>

definition second :: "'a list \<Rightarrow> 'a option" where
  "second xs = (case xs of a # b # rest \<Rightarrow> Some b | _ \<Rightarrow> None)"

definition tokenOf :: "string \<Rightarrow> string option" where
  "tokenOf authorization = second (split_on CHR '' '' authorization)"

text \<open>The last statement of \<^verbatim>\<open>protect\<close>: a second response when the token is falsy.\<close>

definition noToken :: "string option \<Rightarrow> auth_reply response list" where
  "noToken token =
     (if \<not> truthy token
      then [\<lparr> status = 401, body = AuthMessage ''No autorizado, no se proporciono token'' \<rparr>]
      else [])"

text \<open>
  The middleware. \<^verbatim>\<open>jwt.verify(token, secret)\<close> is the parameter \<open>verify\<close>: it
  returns the payload or throws. \<open>downstream\<close> is what \<^verbatim>\<open>next()\<close> does once called:
  return, or throw an error that the \<^verbatim>\<open>catch\<close> around it answers.
\<close>

definition protect ::
  "(string option \<Rightarrow> string + jwt_payload) \<Rightarrow> string option \<Rightarrow> string option \<Rightarrow> auth_outcome" where
  "protect verify downstream authorization =
     (if truthy authorization \<and> startsWith (toStringJS authorization) ''Bearer'' then
        (let token = tokenOf (toStringJS authorization) in
         case verify token of
           Inl error \<Rightarrow>
             \<lparr> next_called = False, userId = None,
               sent = \<lparr> status = 401, body = AuthMessage ''Token no valido o expirado'' \<rparr>
                      # noToken token \<rparr>
         | Inr decoded \<Rightarrow>
             (case downstream of
                None \<Rightarrow>
                  \<lparr> next_called = True, userId = payload_id decoded, sent = noToken token \<rparr>
              | Some error \<Rightarrow>
                  \<lparr> next_called = True, userId = payload_id decoded,
                    sent = \<lparr> status = 401, body = AuthMessage ''Token no valido o expirado'' \<rparr>
                           # noToken token \<rparr>))
      else
        \<lparr> next_called = False, userId = None, sent = noToken None \<rparr>)"

text \<open>A verifier that accepts one token only.\<close>

definition example_verify :: "string option \<Rightarrow> string + jwt_payload" where
  "example_verify token =
     (if token = Some ''good''
      then Inr \<lparr> payload_id = Some ''u1'', payload_role = Some ''admin'' \<rparr>
      else Inl ''invalid token'')"

section \<open>The User model\<close>

text \<open>
  A user as the schema declares it, without the addresses, which play no part in
  what follows. A field that is \<^verbatim>\<open>undefined\<close> is \<open>None\<close>: a document built from a
  request may lack a field until the validators refuse it, and a handler removes the
  password from the document it is about to send.
\<close>

record role =
  role_id :: string
  role_nombre :: string

record user =
  user_id :: string
  user_nombre :: "string option"
  email :: "string option"
  password :: "string option"
  idRol :: string

text \<open>A Mongoose document: the fields, and the paths assigned since it was loaded.\<close>

record user_doc =
  doc_fields :: user
  modifiedPaths :: "string set"

definition isModified :: "string \<Rightarrow> user_doc \<Rightarrow> bool" where
  "isModified p d = (p \<in> modifiedPaths d)"

definition loaded :: "user \<Rightarrow> user_doc" where
  "loaded u = \<lparr> doc_fields = u, modifiedPaths = {} \<rparr>"

text \<open>
  Assignments to a document. The schema trims the name, and trims and lower-cases
  the email. A path is marked as modified only when the value assigned differs from
  the one it had.
\<close>

definition markModified :: "string \<Rightarrow> bool \<Rightarrow> user_doc \<Rightarrow> string set" where
  "markModified p changed d = (if changed then insert p (modifiedPaths d) else modifiedPaths d)"

definition setNombre :: "string option \<Rightarrow> user_doc \<Rightarrow> user_doc" where
  "setNombre v d =
     (let w = map_option trim v in
      \<lparr> doc_fields = (doc_fields d) \<lparr> user_nombre := w \<rparr>,
        modifiedPaths = markModified ''nombre'' (w \<noteq> user_nombre (doc_fields d)) d \<rparr>)"

definition setEmail :: "string option \<Rightarrow> user_doc \<Rightarrow> user_doc" where
  "setEmail v d =
     (let w = map_option (\<lambda>s. map toLower (trim s)) v in
      \<lparr> doc_fields = (doc_fields d) \<lparr> email := w \<rparr>,
        modifiedPaths = markModified ''email'' (w \<noteq> email (doc_fields d)) d \<rparr>)"

definition setPassword :: "string option \<Rightarrow> user_doc \<Rightarrow> user_doc" where
  "setPassword v d =
     \<lparr> doc_fields = (doc_fields d) \<lparr> password := v \<rparr>,
       modifiedPaths = markModified ''password'' (v \<noteq> password (doc_fields d)) d \<rparr>"

text \<open>
  What the handlers take from libraries and from the schema: the bcrypt calls, the
  signing of a token for an identifier and a role name, the validators of the user
  schema, the cast of an identifier, and the identifier given to a new document.
\<close>

record auth_env =
  genSalt :: "nat \<Rightarrow> db_error + string"
  bcrypt_hash :: "string option \<Rightarrow> string \<Rightarrow> db_error + string"
  bcrypt_compare :: "string option \<Rightarrow> string option \<Rightarrow> db_error + bool"
  jwt_sign :: "string \<Rightarrow> string \<Rightarrow> string"
  validate :: "user \<Rightarrow> db_error option"
  castId :: "string \<Rightarrow> db_error option"
  freshId :: "user list \<Rightarrow> string"

record user_db =
  users :: "user list"
  roles :: "role list"

text \<open>
  \<^verbatim>\<open>userSchema.pre('save')\<close>: nothing when the password path is not modified;
  otherwise a salt is generated and the password is replaced by its hash. An error
  of either bcrypt call is passed to \<^verbatim>\<open>next\<close> and fails the save.
\<close>

definition preSave :: "auth_env \<Rightarrow> user_doc \<Rightarrow> db_error + user_doc" where
  "preSave env d =
     (if \<not> isModified ''password'' d then Inr d
      else
        (case genSalt env 10 of
           Inl e \<Rightarrow> Inl e
         | Inr salt \<Rightarrow>
             (case bcrypt_hash env (password (doc_fields d)) salt of
                Inl e \<Rightarrow> Inl e
              | Inr h \<Rightarrow> Inr (d \<lparr> doc_fields := (doc_fields d) \<lparr> password := Some h \<rparr> \<rparr>))))"

definition userById :: "user list \<Rightarrow> string \<Rightarrow> user option" where
  "userById us i = find (\<lambda>u. user_id u = i) us"

fun upsert :: "user \<Rightarrow> user list \<Rightarrow> user list" where
  "upsert v [] = [v]"
| "upsert v (u # us) = (if user_id u = user_id v then v # us else u # upsert v us)"

text \<open>
  \<^verbatim>\<open>doc.save()\<close>: the validators, then the pre-save hook, then the write, which the
  unique index on the email may refuse. It returns the document saved and the
  collection afterwards.
\<close>

definition saveUser :: "auth_env \<Rightarrow> user_db \<Rightarrow> user_doc \<Rightarrow> db_error + (user_doc \<times> user_db)" where
  "saveUser env db d =
     (case validate env (doc_fields d) of
        Some e \<Rightarrow> Inl e
      | None \<Rightarrow>
          (case preSave env d of
             Inl e \<Rightarrow> Inl e
           | Inr d' \<Rightarrow>
               if list_ex (\<lambda>u. user_id u \<noteq> user_id (doc_fields d') \<and> email u = email (doc_fields d'))
                    (users db)
               then Inl duplicateKey
               else Inr (d' \<lparr> modifiedPaths := {} \<rparr>,
                         db \<lparr> users := upsert (doc_fields d') (users db) \<rparr>)))"

text \<open>The password stored for an identifier.\<close>

definition storedPassword :: "user_db \<Rightarrow> string \<Rightarrow> string option" where
  "storedPassword db i = (case userById (users db) i of None \<Rightarrow> None | Some u \<Rightarrow> password u)"

section \<open>authController and userController\<close>

record user_body =
  b_nombre :: "string option"
  b_email :: "string option"
  b_password :: "string option"

datatype user_reply =
    LoggedIn string user
  | UserCreated string user
  | ClientCreated string string user
  | AdminList "user list"
  | UserUpdated string user
  | UMessage string
  | UError string string

text \<open>The users a response body carries.\<close>

fun usersIn :: "user_reply \<Rightarrow> user list" where
  "usersIn (LoggedIn token u) = [u]"
| "usersIn (UserCreated msg u) = [u]"
| "usersIn (ClientCreated msg token u) = [u]"
| "usersIn (AdminList us) = us"
| "usersIn (UserUpdated msg u) = [u]"
| "usersIn (UMessage msg) = []"
| "usersIn (UError msg e) = []"

definition roleByName :: "user_db \<Rightarrow> string \<Rightarrow> role option" where
  "roleByName db n = find (\<lambda>r. role_nombre r = n) (roles db)"

definition roleById :: "user_db \<Rightarrow> string \<Rightarrow> role option" where
  "roleById db i = find (\<lambda>r. role_id r = i) (roles db)"

text \<open>\<^verbatim>\<open>User.findOne({ email })\<close>, the email compared as given.\<close>

definition userByEmail :: "user_db \<Rightarrow> string option \<Rightarrow> user option" where
  "userByEmail db e = find (\<lambda>u. email u = e) (users db)"

text \<open>\<^verbatim>\<open>new User({ nombre, email, password, idRol })\<close>: the paths given are modified.\<close>

definition newUser :: "auth_env \<Rightarrow> user_db \<Rightarrow> user_body \<Rightarrow> string \<Rightarrow> user_doc" where
  "newUser env db b rol =
     \<lparr> doc_fields = \<lparr> user_id = freshId env (users db),
                  user_nombre = map_option trim (b_nombre b),
                  email = map_option (\<lambda>s. map toLower (trim s)) (b_email b),
                  password = b_password b,
                  idRol = rol \<rparr>,
       modifiedPaths = {''idRol''}
         \<union> (if b_nombre b = None then {} else {''nombre''})
         \<union> (if b_email b = None then {} else {''email''})
         \<union> (if b_password b = None then {} else {''password''}) \<rparr>"

definition loginUser :: "auth_env \<Rightarrow> user_db \<Rightarrow> user_body \<Rightarrow> user_reply response" where
  "loginUser env db b =
     (case userByEmail db (b_email b) of
        None \<Rightarrow> \<lparr> status = 401, body = UMessage ''Credenciales invalidas (email)'' \<rparr>
      | Some u \<Rightarrow>
          (case bcrypt_compare env (b_password b) (password u) of
             Inl e \<Rightarrow>
               \<lparr> status = 500,
                 body = UError ''Error en el servidor al intentar iniciar sesion'' (err_message e) \<rparr>
           | Inr isMatch \<Rightarrow>
               if \<not> isMatch then
                 \<lparr> status = 401, body = UMessage ''Credenciales invalidas (contrasena)'' \<rparr>
               else
                 (case roleById db (idRol u) of
                    None \<Rightarrow>
                      \<lparr> status = 500,
                        body = UError ''Error en el servidor al intentar iniciar sesion''
                                 ''Cannot read properties of null'' \<rparr>
                  | Some r \<Rightarrow>
                      (let token = jwt_sign env (user_id u) (role_nombre r)
                       in \<lparr> status = 200, body = LoggedIn token (u \<lparr> password := None \<rparr>) \<rparr>))))"

definition registerAdmin ::
  "auth_env \<Rightarrow> user_db \<Rightarrow> user_body \<Rightarrow> user_reply response \<times> user_db" where
  "registerAdmin env db b =
     (case roleByName db ''admin'' of
        None \<Rightarrow>
          (\<lparr> status = 500,
             body = UMessage ''Error de configuracion: El rol admin no existe en la BD.'' \<rparr>, db)
      | Some adminRole \<Rightarrow>
          (case userByEmail db (b_email b) of
             Some userExists \<Rightarrow>
               (\<lparr> status = 400, body = UMessage ''El email ya esta registrado'' \<rparr>, db)
           | None \<Rightarrow>
               (case saveUser env db (newUser env db b (role_id adminRole)) of
                  Inl e \<Rightarrow>
                    (\<lparr> status = 500,
                       body = UError ''Error al registrar administrador'' (err_message e) \<rparr>, db)
                | Inr (savedUser, db') \<Rightarrow>
                    (\<lparr> status = 201,
                       body = UserCreated ''Administrador creado exitosamente''
                                ((doc_fields savedUser) \<lparr> password := None \<rparr>) \<rparr>, db'))))"

definition registerClient ::
  "auth_env \<Rightarrow> user_db \<Rightarrow> user_body \<Rightarrow> user_reply response \<times> user_db" where
  "registerClient env db b =
     (if \<not> truthy (b_nombre b) \<or> \<not> truthy (b_email b) \<or> \<not> truthy (b_password b) then
        (\<lparr> status = 400, body = UMessage ''Todos los campos son obligatorios.'' \<rparr>, db)
      else if length (toStringJS (b_password b)) < 6 then
        (\<lparr> status = 400,
           body = UMessage ''La contrasena debe tener al menos 6 caracteres.'' \<rparr>, db)
      else
        (case roleByName db ''cliente'' of
           None \<Rightarrow>
             (\<lparr> status = 500,
                body = UMessage ''Error de configuracion: El rol cliente no existe.'' \<rparr>, db)
         | Some clientRole \<Rightarrow>
             (case userByEmail db (b_email b) of
                Some userExists \<Rightarrow>
                  (\<lparr> status = 400, body = UMessage ''El email ya esta registrado.'' \<rparr>, db)
              | None \<Rightarrow>
                  (case saveUser env db (newUser env db b (role_id clientRole)) of
                     Inl e \<Rightarrow>
                       (\<lparr> status = 500,
                          body = UError ''Error al registrar el usuario'' (err_message e) \<rparr>, db)
                   | Inr (savedUser, db') \<Rightarrow>
                       (let token = jwt_sign env (user_id (doc_fields savedUser))
                                      (role_nombre clientRole)
                        in (\<lparr> status = 201,
                              body = ClientCreated ''Usuario creado exitosamente.'' token
                                       ((doc_fields savedUser) \<lparr> password := None \<rparr>) \<rparr>, db'))))))"

text \<open>\<^verbatim>\<open>.select('-password')\<close> on the documents found.\<close>

definition selectWithoutPassword :: "user list \<Rightarrow> user list" where
  "selectWithoutPassword us = map (\<lambda>u. u \<lparr> password := None \<rparr>) us"

definition getAdminUsers :: "user_db \<Rightarrow> user_reply response" where
  "getAdminUsers db =
     (case roleByName db ''admin'' of
        None \<Rightarrow>
          \<lparr> status = 500, body = UMessage ''Error de configuracion: El rol admin no existe.'' \<rparr>
      | Some adminRole \<Rightarrow>
          (let admins = selectWithoutPassword
                          (filter (\<lambda>u. idRol u = role_id adminRole) (users db))
           in \<lparr> status = 200, body = AdminList admins \<rparr>))"

text \<open>The \<^verbatim>\<open>catch\<close> of \<^verbatim>\<open>updateUser\<close>: a duplicate key is answered 400.\<close>

definition updateUserFailed :: "db_error \<Rightarrow> user_reply response" where
  "updateUserFailed e =
     (if err_code e = Some 11000 then
        \<lparr> status = 400, body = UMessage ''El email ya esta en uso por otro usuario.'' \<rparr>
      else
        \<lparr> status = 500, body = UError ''Error al actualizar el usuario'' (err_message e) \<rparr>)"

text \<open>
  The assignments \<^verbatim>\<open>updateUser\<close> makes to the document it has loaded: the name and
  the email when given, the password when given with at least six characters.
\<close>

definition assignBody :: "user_body \<Rightarrow> user \<Rightarrow> user_doc" where
  "assignBody b u =
     (let d0 = loaded u;
          d1 = setNombre (if truthy (b_nombre b) then b_nombre b else user_nombre u) d0;
          d2 = setEmail (if truthy (b_email b) then b_email b else email u) d1
      in if truthy (b_password b) \<and> 6 \<le> length (toStringJS (b_password b))
         then setPassword (b_password b) d2 else d2)"

definition updateUser ::
  "auth_env \<Rightarrow> user_db \<Rightarrow> string \<Rightarrow> user_body \<Rightarrow> user_reply response \<times> user_db" where
  "updateUser env db i b =
     (case castId env i of
        Some e \<Rightarrow> (updateUserFailed e, db)
      | None \<Rightarrow>
          (case userById (users db) i of
             None \<Rightarrow> (\<lparr> status = 404, body = UMessage ''Usuario no encontrado'' \<rparr>, db)
           | Some u \<Rightarrow>
               (case saveUser env db (assignBody b u) of
                  Inl e \<Rightarrow> (updateUserFailed e, db)
                | Inr (updatedUser, db') \<Rightarrow>
                    (\<lparr> status = 200,
                       body = UserUpdated ''Usuario actualizado exitosamente''
                                ((doc_fields updatedUser) \<lparr> password := None \<rparr>) \<rparr>, db'))))"

subsection \<open>An environment and a collection to run the handlers on\<close>

definition example_env :: auth_env where
  "example_env =
     \<lparr> genSalt = (\<lambda>rounds. Inr ''salt''),
       bcrypt_hash = (\<lambda>pw salt. case pw of
                         None \<Rightarrow> Inl \<lparr> err_name = ''Error'', err_message = ''Illegal arguments'',
                                       err_code = None \<rparr>
                       | Some p \<Rightarrow> Inr (''$2a$10$'' @ salt @ rev p)),
       bcrypt_compare = (\<lambda>pw h. Inr (case pw of None \<Rightarrow> False
                                      | Some p \<Rightarrow> h = Some (''$2a$10$'' @ ''salt'' @ rev p))),
       jwt_sign = (\<lambda>i r. ''token.'' @ i @ ''.'' @ r),
       validate = (\<lambda>u. if user_nombre u = None \<or> email u = None \<or> password u = None
                        then Some \<lparr> err_name = ''ValidationError'',
                                    err_message = ''User validation failed'', err_code = None \<rparr>
                        else None),
       castId = (\<lambda>i. None),
       freshId = (\<lambda>us. ''u'' @ decimal (Suc (length us))) \<rparr>"

definition example_users :: user_db where
  "example_users =
     \<lparr> users = [\<lparr> user_id = ''u1'', user_nombre = Some ''Ana'', email = Some ''ana@x.pe'',
                  password = Some ''$2a$10$saltterces'', idRol = ''r1'' \<rparr>],
       roles = [\<lparr> role_id = ''r1'', role_nombre = ''admin'' \<rparr>,
                \<lparr> role_id = ''r2'', role_nombre = ''cliente'' \<rparr>] \<rparr>"

definition rename_body :: user_body where
  "rename_body = \<lparr> b_nombre = Some ''Ana Maria'', b_email = None, b_password = None \<rparr>"

definition repassword_body :: user_body where
  "repassword_body = \<lparr> b_nombre = None, b_email = None, b_password = Some ''abcdef'' \<rparr>"

definition login_body :: user_body where
  "login_body = \<lparr> b_nombre = None, b_email = Some ''ana@x.pe'', b_password = Some ''secret'' \<rparr>"

section \<open>Properties\<close>


lemma of_char_digit: "d < 10 \<Longrightarrow> (of_char (char_of (48 + d) :: char) :: nat) = 48 + d"
  by simp











lemma parseInt10_1: "parseInt10 ''1'' = Fin 1"
  by (simp add: parseInt10_def isWhite_def isDigit_def digitsVal_def digitVal_def)

lemma parseInt10_8: "parseInt10 ''8'' = Fin 8"
  by (simp add: parseInt10_def isWhite_def isDigit_def digitsVal_def digitVal_def)




text \<open>
  C1. When the list handler answers 200, \<open>totalProducts\<close> is the number of documents
  that \<open>find\<close> returns, unpaginated, for the very filter the page was fetched with;
  \<open>totalPages\<close> is derived from that count and the limit; and the page returned is
  the store's cursor, at the computed skip and limit, over those same documents.
\<close>

theorem count_matches_fetch:
  assumes "status (getAllProducts S q) = 200"
  shows "\<exists>matching. find_all S (filterObject_of q) = Inr matching
        \<and> totalProducts (body (getAllProducts S q)) = length matching
        \<and> totalPages (body (getAllProducts S q)) =
            js_ceil (js_div (Fin (of_nat (length matching))) (limitNum_of q))
        \<and> cursor S (sortObject_of q) (skip_of q) (limitNum_of q) matching =
            Inr (products (body (getAllProducts S q)))"
  using assms
  by (auto simp: getAllProducts_def countDocuments_def find_page_def find_all_def Let_def
      split: option.splits sum.splits)

theorem count_matches_fetch_witness:
  "status (getAllProducts example_db example_query) = 200
   \<and> (\<exists>matching. find_all example_db (filterObject_of example_query) = Inr matching
        \<and> totalProducts (body (getAllProducts example_db example_query)) = length matching
        \<and> totalPages (body (getAllProducts example_db example_query)) =
            js_ceil (js_div (Fin (of_nat (length matching))) (limitNum_of example_query))
        \<and> cursor example_db (sortObject_of example_query) (skip_of example_query)
             (limitNum_of example_query) matching =
            Inr (products (body (getAllProducts example_db example_query))))"
proof -
  have ok: "status (getAllProducts example_db example_query) = 200"
    by code_simp
  from count_matches_fetch [OF ok] ok show ?thesis
    by blast
qed

lemma parseInt10_abc: "parseInt10 ''abc'' = NaN"
  by (simp add: parseInt10_def isWhite_def isDigit_def)

lemma parseFloat_abc: "parseFloat ''abc'' = NaN"
  by (simp add: parseFloat_def isWhite_def isDigit_def startsWith_def)

text \<open>
  C2, as stated, fails: for the request \<^verbatim>\<open>?minPrice=abc&page=abc\<close> the filter
  carries the bound \<open>$gte: NaN\<close>, the page number is NaN and not the default 1, and
  the skip handed to the store is NaN.
\<close>

theorem non_numeric_propagates:
  "f_PrecioVenta (filterObject_of bad_query) = Some \<lparr> gte = Some NaN, lte = None \<rparr>
   \<and> f_PrecioVenta (filterObject_of bad_query) \<noteq> None
   \<and> pageNum_of bad_query = NaN
   \<and> pageNum_of bad_query \<noteq> Fin 1
   \<and> skip_of bad_query = NaN"
  by (simp add: filterObject_of_def priceFilter_def truthy_def toStringJS_def bad_query_def
      pageNum_of_def limitNum_of_def skip_of_def parseInt10_abc parseFloat_abc parseInt10_8)

text \<open>
  C2, amended. An absent or empty \<open>minPrice\<close> and \<open>maxPrice\<close> add no price condition,
  and an absent \<open>page\<close> or \<open>limit\<close> takes its default, 1 or 8. A value that is present
  and that \<^verbatim>\<open>parseFloat\<close> or \<^verbatim>\<open>parseInt\<close> cannot read is neither discarded nor
  defaulted: the NaN it parses to is the bound of the filter, or the page, the limit
  and the skip. Whatever the store then does, the handler answers 200 or 500.
\<close>

theorem non_numeric_policy:
  "(\<not> truthy (minPrice q) \<and> \<not> truthy (maxPrice q) \<longrightarrow> f_PrecioVenta (filterObject_of q) = None)
   \<and> (page q = None \<longrightarrow> pageNum_of q = Fin 1)
   \<and> (limit q = None \<longrightarrow> limitNum_of q = Fin 8)
   \<and> (minPrice q = Some s \<and> s \<noteq> [] \<and> parseFloat s = NaN \<longrightarrow>
        (\<exists>r. f_PrecioVenta (filterObject_of q) = Some r \<and> gte r = Some NaN))
   \<and> (maxPrice q = Some s \<and> s \<noteq> [] \<and> parseFloat s = NaN \<longrightarrow>
        (\<exists>r. f_PrecioVenta (filterObject_of q) = Some r \<and> lte r = Some NaN))
   \<and> (page q = Some s \<and> parseInt10 s = NaN \<longrightarrow> pageNum_of q = NaN \<and> skip_of q = NaN)
   \<and> (limit q = Some s \<and> parseInt10 s = NaN \<longrightarrow> limitNum_of q = NaN \<and> skip_of q = NaN)
   \<and> (status (getAllProducts S q) = 200 \<or> status (getAllProducts S q) = 500)"
proof -
  have prices: "\<not> truthy (minPrice q) \<and> \<not> truthy (maxPrice q) \<longrightarrow>
      f_PrecioVenta (filterObject_of q) = None"
    by (simp add: filterObject_of_def priceFilter_def)
  have lo: "minPrice q = Some s \<and> s \<noteq> [] \<and> parseFloat s = NaN \<longrightarrow>
      (\<exists>r. f_PrecioVenta (filterObject_of q) = Some r \<and> gte r = Some NaN)"
    by (simp add: filterObject_of_def priceFilter_def truthy_def toStringJS_def)
  have hi: "maxPrice q = Some s \<and> s \<noteq> [] \<and> parseFloat s = NaN \<longrightarrow>
      (\<exists>r. f_PrecioVenta (filterObject_of q) = Some r \<and> lte r = Some NaN)"
    by (simp add: filterObject_of_def priceFilter_def truthy_def toStringJS_def)
  have pg: "page q = Some s \<and> parseInt10 s = NaN \<longrightarrow> pageNum_of q = NaN \<and> skip_of q = NaN"
    by (simp add: pageNum_of_def skip_of_def)
  have lm: "limit q = Some s \<and> parseInt10 s = NaN \<longrightarrow> limitNum_of q = NaN \<and> skip_of q = NaN"
    by (cases "js_sub (pageNum_of q) (Fin 1)") (simp_all add: limitNum_of_def skip_of_def)
  have st: "status (getAllProducts S q) = 200 \<or> status (getAllProducts S q) = 500"
    by (simp add: getAllProducts_def Let_def split: sum.splits)
  from prices lo hi pg lm st show ?thesis
    by (simp add: pageNum_of_def limitNum_of_def parseInt10_1 parseInt10_8)
qed

theorem non_numeric_policy_witness:
  "minPrice bad_query = Some ''abc'' \<and> ''abc'' \<noteq> [] \<and> parseFloat ''abc'' = NaN
   \<and> page bad_query = Some ''abc'' \<and> parseInt10 ''abc'' = NaN
   \<and> limit bad_query = None \<and> \<not> truthy (maxPrice bad_query)
   \<and> (\<exists>r. f_PrecioVenta (filterObject_of bad_query) = Some r \<and> gte r = Some NaN)
   \<and> pageNum_of bad_query = NaN \<and> skip_of bad_query = NaN
   \<and> limitNum_of bad_query = Fin 8"
  using non_numeric_policy [of bad_query "''abc''" example_db]
  by (simp add: bad_query_def parseInt10_abc parseFloat_abc truthy_def)


lemma docById_SomeD: "docById ds i = Some p \<Longrightarrow> p \<in> set ds \<and> ident p = i"
  by (auto simp: docById_def find_Some_iff)

lemma docById_replaceFirst:
  "docById ds i = Some p \<Longrightarrow> ident (f p) = i \<Longrightarrow> docById (replaceFirst i f ds) i = Some (f p)"
  by (induction ds) (auto simp: docById_def)

lemma ident_applyUpdate: "ident (applyUpdate u p) = ident p"
  by (simp add: applyUpdate_def)

lemma PrecioVenta_applyUpdate: "PrecioVenta (applyUpdate u p) = u_PrecioVenta u"
  by (simp add: applyUpdate_def)

lemma no_email_in_cleanup: "PriceChangeEmail pr old \<notin> set (oldImageCleanup img p)"
  by (cases img; cases "truthy (imagen p)"; cases "publicIdOf (toStringJS (imagen p))")
    (simp_all add: oldImageCleanup_def Let_def)

lemma updateFailed_status: "updateFailed S img effs e = (res, effs', S') \<Longrightarrow> status res = 500"
  by (auto simp: updateFailed_def)

lemma updateProduct_ok:
  assumes run: "updateProduct S i b img = (res, effs, S')" and ok: "status res = 200"
  shows "\<exists>p. docById (docs S) i = Some p
          \<and> docs S' = replaceFirst i (applyUpdate (updateData_of b p img)) (docs S)
          \<and> effs = oldImageCleanup img p
                @ (if strict_neq (PrecioVenta p) (u_PrecioVenta (updateData_of b p img))
                   then [PriceChangeEmail (applyUpdate (updateData_of b p img) p) (PrecioVenta p)]
                   else [])"
  using run ok
  by (auto simp: updateProduct_def findById_def findByIdAndUpdate_def Let_def
        PrecioVenta_applyUpdate
      split: sum.splits option.splits prod.splits dest: updateFailed_status)

text \<open>
  C3. After an update answered with 200, on a collection whose stored prices are
  numbers, the price-change notice is handed to the mailer exactly when the stored
  price of the product after the update differs from the one before; the notice
  carries the price before and the updated product. When the submitted price does
  not parse, the stored price is unchanged and no notice is handed over.
\<close>

theorem price_notification:
  assumes run: "updateProduct S i b img = (res, effs, S')"
    and ok: "status res = 200"
    and stored: "\<forall>p \<in> set (docs S). PrecioVenta p \<noteq> NaN"
  shows "((\<exists>pr old. PriceChangeEmail pr old \<in> set effs) \<longleftrightarrow> priceAt S i \<noteq> priceAt S' i)
       \<and> (\<forall>pr old. PriceChangeEmail pr old \<in> set effs \<longrightarrow>
            priceAt S i = Some old \<and> priceAt S' i = Some (PrecioVenta pr)
            \<and> docById (docs S') i = Some pr)
       \<and> (isNaN (parseFloat (toStringJS (b_PrecioVenta b))) \<longrightarrow>
            priceAt S' i = priceAt S i \<and> (\<forall>pr old. PriceChangeEmail pr old \<notin> set effs))"
proof -
  from updateProduct_ok [OF run ok] obtain p where
    p: "docById (docs S) i = Some p"
    and docs': "docs S' = replaceFirst i (applyUpdate (updateData_of b p img)) (docs S)"
    and effs: "effs = oldImageCleanup img p
        @ (if strict_neq (PrecioVenta p) (u_PrecioVenta (updateData_of b p img))
           then [PriceChangeEmail (applyUpdate (updateData_of b p img) p) (PrecioVenta p)]
           else [])"
    by blast
  let ?u = "updateData_of b p img"
  from docById_SomeD [OF p] stored have old_num: "PrecioVenta p \<noteq> NaN" and idp: "ident p = i"
    by auto
  have new_num: "u_PrecioVenta ?u \<noteq> NaN"
    using old_num by (simp add: updateData_of_def Let_def isNaN_def)
  have after: "docById (docs S') i = Some (applyUpdate ?u p)"
    unfolding docs' using p idp by (intro docById_replaceFirst) (simp_all add: ident_applyUpdate)
  have before_price: "priceAt S i = Some (PrecioVenta p)"
    by (simp add: priceAt_def p)
  have after_price: "priceAt S' i = Some (u_PrecioVenta ?u)"
    by (simp add: priceAt_def after PrecioVenta_applyUpdate)
  have neq: "strict_neq (PrecioVenta p) (u_PrecioVenta ?u) \<longleftrightarrow> PrecioVenta p \<noteq> u_PrecioVenta ?u"
    using old_num new_num by (simp add: strict_neq_def)
  have mail: "PriceChangeEmail pr old \<in> set effs \<longleftrightarrow>
      PrecioVenta p \<noteq> u_PrecioVenta ?u \<and> pr = applyUpdate ?u p \<and> old = PrecioVenta p"
    for pr old
    unfolding effs using no_email_in_cleanup by (auto simp: neq)
  have fallback: "u_PrecioVenta ?u = PrecioVenta p"
    if "isNaN (parseFloat (toStringJS (b_PrecioVenta b)))"
    using that by (simp add: updateData_of_def Let_def)
  show ?thesis
    using mail fallback
    by (auto simp: before_price after_price after PrecioVenta_applyUpdate)
qed


theorem price_notification_witness:
  "status (fst (updateProduct example_db ''3'' example_body None)) = 200
   \<and> list_all (\<lambda>p. PrecioVenta p \<noteq> NaN) (docs example_db)
   \<and> isNaN (parseFloat (toStringJS (b_PrecioVenta example_body)))
   \<and> priceAt (snd (snd (updateProduct example_db ''3'' example_body None))) ''3'' =
       priceAt example_db ''3''
   \<and> (\<forall>pr old. PriceChangeEmail pr old \<notin>
         set (fst (snd (updateProduct example_db ''3'' example_body None))))"
proof -
  obtain res effs S' where run: "updateProduct example_db ''3'' example_body None = (res, effs, S')"
    by (cases "updateProduct example_db ''3'' example_body None")
  have "status (fst (updateProduct example_db ''3'' example_body None)) = 200"
    by code_simp
  then have ok: "status res = 200"
    by (simp add: run)
  have numbers: "list_all (\<lambda>p. PrecioVenta p \<noteq> NaN) (docs example_db)"
    by code_simp
  then have stored: "\<forall>p \<in> set (docs example_db). PrecioVenta p \<noteq> NaN"
    by (simp add: list_all_iff)
  have unreadable: "isNaN (parseFloat (toStringJS (b_PrecioVenta example_body)))"
    by code_simp
  from price_notification [OF run ok stored] unreadable ok numbers show ?thesis
    by (simp add: run)
qed














text \<open>
  C4, as stated, fails: a brand without a name is refused by the store with a
  ValidationError, and the response has status 500, which is not a client error.
\<close>

theorem create_rejected_not_client_error:
  "m_save (marcaModel example_marcas ''m2'') \<lparr> body_nombre = None \<rparr> = Inl nombreRequired
   \<and> err_name nombreRequired = ''ValidationError''
   \<and> status (createOne (marcaModel example_marcas ''m2'') \<lparr> body_nombre = None \<rparr>) = 500
   \<and> \<not> isClientError (status (createOne (marcaModel example_marcas ''m2'') \<lparr> body_nombre = None \<rparr>))"
  by (simp add: createOne_def marcaModel_def marcaSave_def handleError_def isClientError_def
      nombreRequired_def)

text \<open>
  C4, amended. Whenever the store rejects the payload, whatever the error, Create
  fails with status 500, a server error, and a body that carries the fixed message
  of the operation and the message of the store's error.
\<close>

theorem create_rejected:
  assumes "m_save M req_body = Inl e"
  shows "createOne M req_body =
           \<lparr> status = 500, body = CrudError ''Error al crear el item'' (err_message e) \<rparr>
         \<and> \<not> isClientError (status (createOne M req_body))"
  using assms by (simp add: createOne_def handleError_def isClientError_def)

theorem create_rejected_witness:
  "m_save (marcaModel example_marcas ''m2'') \<lparr> body_nombre = Some ''Acme'' \<rparr> = Inl duplicateKey
   \<and> createOne (marcaModel example_marcas ''m2'') \<lparr> body_nombre = Some ''Acme'' \<rparr> =
       \<lparr> status = 500,
         body = CrudError ''Error al crear el item'' (err_message duplicateKey) \<rparr>"
proof -
  have rejected: "m_save (marcaModel example_marcas ''m2'') \<lparr> body_nombre = Some ''Acme'' \<rparr> =
      Inl duplicateKey"
    by code_simp
  from create_rejected [OF rejected] rejected show ?thesis
    by blast
qed



text \<open>
  C8. The middleware calls \<^verbatim>\<open>next()\<close> exactly when the request has an
  Authorization header that starts with \<^verbatim>\<open>Bearer\<close> and \<^verbatim>\<open>jwt.verify\<close> accepts the
  token taken from it. In every other case the handler behind it is not invoked,
  and what is sent is one or two responses, all of status 401.
\<close>

theorem protect_gate:
  "(next_called (protect verify downstream authorization) \<longleftrightarrow>
      (\<exists>h decoded. authorization = Some h \<and> startsWith h ''Bearer''
          \<and> verify (tokenOf h) = Inr decoded))
   \<and> (\<not> next_called (protect verify downstream authorization) \<longrightarrow>
        sent (protect verify downstream authorization) \<noteq> []
        \<and> (\<forall>r \<in> set (sent (protect verify downstream authorization)). status r = 401))"
proof (cases authorization)
  case None
  then show ?thesis by (simp add: protect_def truthy_def noToken_def)
next
  case (Some h)
  show ?thesis
  proof (cases "h \<noteq> [] \<and> startsWith h ''Bearer''")
    case True
    then show ?thesis
      using Some
      by (cases "verify (tokenOf h)"; cases downstream)
        (auto simp: protect_def truthy_def toStringJS_def noToken_def Let_def)
  next
    case False
    moreover have "\<not> startsWith [] ''Bearer''" by (simp add: startsWith_def)
    ultimately have "\<not> startsWith h ''Bearer''" by (cases "h = []") auto
    then show ?thesis
      using Some by (simp add: protect_def truthy_def toStringJS_def noToken_def)
  qed
qed

theorem protect_gate_witness:
  "\<not> next_called (protect example_verify None (Some ''Bearer bad''))
   \<and> sent (protect example_verify None (Some ''Bearer bad'')) \<noteq> []
   \<and> list_all (\<lambda>r. status r = 401) (sent (protect example_verify None (Some ''Bearer bad'')))
   \<and> next_called (protect example_verify None (Some ''Bearer good''))"
proof -
  have bad: "\<not> next_called (protect example_verify None (Some ''Bearer bad''))"
    by code_simp
  have good: "startsWith ''Bearer good'' ''Bearer''
      \<and> example_verify (tokenOf ''Bearer good'') =
          Inr \<lparr> payload_id = Some ''u1'', payload_role = Some ''admin'' \<rparr>"
    by code_simp
  from protect_gate [of example_verify None "Some ''Bearer bad''"] bad
  have refused: "sent (protect example_verify None (Some ''Bearer bad'')) \<noteq> []
      \<and> list_all (\<lambda>r. status r = 401) (sent (protect example_verify None (Some ''Bearer bad'')))"
    by (simp add: list_all_iff)
  from protect_gate [of example_verify None "Some ''Bearer good''"] good
  have passed: "next_called (protect example_verify None (Some ''Bearer good''))"
    by blast
  from bad refused passed show ?thesis
    by blast
qed


lemma userById_SomeD: "userById us i = Some u \<Longrightarrow> user_id u = i"
  by (auto simp: userById_def find_Some_iff)

lemma userById_upsert: "userById (upsert v us) (user_id v) = Some v"
  by (induction us) (auto simp: userById_def)

lemma preSave_id: "preSave env d = Inr d' \<Longrightarrow> user_id (doc_fields d') = user_id (doc_fields d)"
  by (auto simp: preSave_def split: if_splits sum.splits)

lemma preSave_password:
  "preSave env d = Inr d' \<Longrightarrow>
   (if isModified ''password'' d
    then \<exists>salt h. genSalt env 10 = Inr salt
           \<and> bcrypt_hash env (password (doc_fields d)) salt = Inr h
           \<and> password (doc_fields d') = Some h
    else password (doc_fields d') = password (doc_fields d))"
  by (auto simp: preSave_def split: if_splits sum.splits)

lemma saveUser_stored:
  assumes "saveUser env db d = Inr (d', db')"
  shows "storedPassword db' (user_id (doc_fields d)) = password (doc_fields d')
       \<and> (if isModified ''password'' d
           then \<exists>salt h. genSalt env 10 = Inr salt
                  \<and> bcrypt_hash env (password (doc_fields d)) salt = Inr h
                  \<and> password (doc_fields d') = Some h
           else password (doc_fields d') = password (doc_fields d))"
proof -
  from assms obtain d1 where
    hook: "preSave env d = Inr d1"
    and d': "d' = d1 \<lparr> modifiedPaths := {} \<rparr>"
    and db': "db' = db \<lparr> users := upsert (doc_fields d1) (users db) \<rparr>"
    by (auto simp: saveUser_def split: option.splits sum.splits if_splits)
  have "storedPassword db' (user_id (doc_fields d1)) = password (doc_fields d1)"
    by (simp add: storedPassword_def db' userById_upsert)
  with preSave_id [OF hook] preSave_password [OF hook] d' show ?thesis
    by (auto split: if_splits)
qed

lemma assignBody_doc:
  assumes "userById (users db) i = Some u"
  shows "user_id (doc_fields (assignBody b u)) = i"
    and "password (doc_fields (assignBody b u)) =
        (if truthy (b_password b) \<and> 6 \<le> length (toStringJS (b_password b))
         then b_password b else password u)"
    and "isModified ''password'' (assignBody b u) \<longleftrightarrow>
        truthy (b_password b) \<and> 6 \<le> length (toStringJS (b_password b))
        \<and> b_password b \<noteq> password u"
  using userById_SomeD [OF assms]
  by (auto simp: assignBody_def setPassword_def setEmail_def setNombre_def loaded_def Let_def
      isModified_def markModified_def)

lemma updateUser_failed: "updateUser env db i b = (res, db') \<Longrightarrow> status res \<noteq> 200 \<Longrightarrow> db' = db"
  by (auto simp: updateUser_def split: option.splits sum.splits prod.splits)

lemma updateUser_stored:
  assumes run: "updateUser env db i b = (res, db')" and ok: "status res = 200"
  shows "if truthy (b_password b) \<and> 6 \<le> length (toStringJS (b_password b))
               \<and> b_password b \<noteq> storedPassword db i
            then \<exists>salt h. genSalt env 10 = Inr salt
                   \<and> bcrypt_hash env (b_password b) salt = Inr h
                   \<and> storedPassword db' i = Some h
            else storedPassword db' i = storedPassword db i"
proof -
  from run ok obtain u d' where
    u: "userById (users db) i = Some u"
    and saved: "saveUser env db (assignBody b u) = Inr (d', db')"
    by (auto simp: updateUser_def updateUserFailed_def
        split: option.splits sum.splits prod.splits if_splits)
  have before: "storedPassword db i = password u"
    by (simp add: storedPassword_def u)
  from saveUser_stored [OF saved] assignBody_doc [OF u, of b] before
  show ?thesis
    by (auto split: if_splits)
qed

text \<open>
  C6. A save hashes the password exactly when its path is modified: then what is
  stored is the bcrypt hash of the password assigned, and otherwise what is stored is
  the password the document already had. For the user update: the stored credential
  becomes the hash of the submitted password when one of at least six characters is
  submitted that differs from the stored value, and is left as it was in every other
  update, and in every update that fails.
\<close>

theorem rehash_iff_modified:
  "(\<forall>d' db'. saveUser env db d = Inr (d', db') \<longrightarrow>
      (isModified ''password'' d \<longrightarrow>
         (\<exists>salt h. genSalt env 10 = Inr salt
            \<and> bcrypt_hash env (password (doc_fields d)) salt = Inr h
            \<and> storedPassword db' (user_id (doc_fields d)) = Some h))
      \<and> (\<not> isModified ''password'' d \<longrightarrow>
           storedPassword db' (user_id (doc_fields d)) = password (doc_fields d)))
   \<and> (\<forall>res db'. updateUser env db i b = (res, db') \<longrightarrow>
        (status res = 200 \<longrightarrow>
           (if truthy (b_password b) \<and> 6 \<le> length (toStringJS (b_password b))
               \<and> b_password b \<noteq> storedPassword db i
            then \<exists>salt h. genSalt env 10 = Inr salt
                   \<and> bcrypt_hash env (b_password b) salt = Inr h
                   \<and> storedPassword db' i = Some h
            else storedPassword db' i = storedPassword db i))
        \<and> (status res \<noteq> 200 \<longrightarrow> db' = db))"
proof -
  have save: "\<forall>d' db'. saveUser env db d = Inr (d', db') \<longrightarrow>
      (isModified ''password'' d \<longrightarrow>
         (\<exists>salt h. genSalt env 10 = Inr salt
            \<and> bcrypt_hash env (password (doc_fields d)) salt = Inr h
            \<and> storedPassword db' (user_id (doc_fields d)) = Some h))
      \<and> (\<not> isModified ''password'' d \<longrightarrow>
           storedPassword db' (user_id (doc_fields d)) = password (doc_fields d))"
    using saveUser_stored [of env db d] by (auto split: if_splits)
  from save updateUser_stored [of env db i b] updateUser_failed [of env db i b] show ?thesis
    by blast
qed


theorem rehash_iff_modified_witness:
  "status (fst (updateUser example_env example_users ''u1'' rename_body)) = 200
   \<and> \<not> truthy (b_password rename_body)
   \<and> storedPassword (snd (updateUser example_env example_users ''u1'' rename_body)) ''u1'' =
       storedPassword example_users ''u1''
   \<and> status (fst (updateUser example_env example_users ''u1'' repassword_body)) = 200
   \<and> storedPassword (snd (updateUser example_env example_users ''u1'' repassword_body)) ''u1'' =
       Some ''$2a$10$saltfedcba''"
proof -
  obtain r1 db1 where run1: "updateUser example_env example_users ''u1'' rename_body = (r1, db1)"
    by (cases "updateUser example_env example_users ''u1'' rename_body")
  obtain r2 db2 where run2: "updateUser example_env example_users ''u1'' repassword_body = (r2, db2)"
    by (cases "updateUser example_env example_users ''u1'' repassword_body")
  have "status (fst (updateUser example_env example_users ''u1'' rename_body)) = 200"
    by code_simp
  then have ok1: "status r1 = 200" by (simp add: run1)
  have "status (fst (updateUser example_env example_users ''u1'' repassword_body)) = 200"
    by code_simp
  then have ok2: "status r2 = 200" by (simp add: run2)
  have none: "\<not> truthy (b_password rename_body)"
    by code_simp
  have given: "truthy (b_password repassword_body)
      \<and> 6 \<le> length (toStringJS (b_password repassword_body))
      \<and> b_password repassword_body \<noteq> storedPassword example_users ''u1''"
    by code_simp
  have salt: "genSalt example_env 10 = Inr ''salt''"
    by (simp add: example_env_def)
  have hash: "bcrypt_hash example_env (b_password repassword_body) ''salt'' =
      Inr ''$2a$10$saltfedcba''"
    by (simp add: example_env_def repassword_body_def)
  from rehash_iff_modified [of example_env example_users _ "''u1''" rename_body] run1 ok1 none
  have kept: "storedPassword db1 ''u1'' = storedPassword example_users ''u1''"
    by auto
  from rehash_iff_modified [of example_env example_users _ "''u1''" repassword_body] run2 ok2 given
  have "\<exists>s h. genSalt example_env 10 = Inr s
      \<and> bcrypt_hash example_env (b_password repassword_body) s = Inr h
      \<and> storedPassword db2 ''u1'' = Some h"
    by auto
  with salt hash have hashed: "storedPassword db2 ''u1'' = Some ''$2a$10$saltfedcba''"
    by auto
  from ok1 ok2 none kept hashed show ?thesis
    by (simp add: run1 run2)
qed

text \<open>
  C9. Every user object in a response of login, of the two registrations, of the
  list of administrators and of the user update is without its password; and each
  success response of the four single-user handlers does carry one user object.
\<close>

theorem responses_hide_password:
  "(\<forall>u \<in> set (usersIn (body (loginUser env db b))). password u = None)
   \<and> (\<forall>u \<in> set (usersIn (body (fst (registerAdmin env db b)))). password u = None)
   \<and> (\<forall>u \<in> set (usersIn (body (fst (registerClient env db b)))). password u = None)
   \<and> (\<forall>u \<in> set (usersIn (body (getAdminUsers db))). password u = None)
   \<and> (\<forall>u \<in> set (usersIn (body (fst (updateUser env db i b)))). password u = None)
   \<and> (status (loginUser env db b) = 200 \<longrightarrow>
        length (usersIn (body (loginUser env db b))) = 1)
   \<and> (status (fst (registerAdmin env db b)) = 201 \<longrightarrow>
        length (usersIn (body (fst (registerAdmin env db b)))) = 1)
   \<and> (status (fst (registerClient env db b)) = 201 \<longrightarrow>
        length (usersIn (body (fst (registerClient env db b)))) = 1)
   \<and> (status (fst (updateUser env db i b)) = 200 \<longrightarrow>
        length (usersIn (body (fst (updateUser env db i b)))) = 1)"
proof -
  have login: "\<forall>u \<in> set (usersIn (body (loginUser env db b))). password u = None"
    by (auto simp: loginUser_def Let_def split: option.splits sum.splits)
  have admin: "\<forall>u \<in> set (usersIn (body (fst (registerAdmin env db b)))). password u = None"
    by (auto simp: registerAdmin_def split: option.splits sum.splits prod.splits)
  have client: "\<forall>u \<in> set (usersIn (body (fst (registerClient env db b)))). password u = None"
    by (auto simp: registerClient_def Let_def split: option.splits sum.splits prod.splits)
  have listed: "\<forall>u \<in> set (usersIn (body (getAdminUsers db))). password u = None"
    by (auto simp: getAdminUsers_def selectWithoutPassword_def Let_def split: option.splits)
  have updated: "\<forall>u \<in> set (usersIn (body (fst (updateUser env db i b)))). password u = None"
    by (auto simp: updateUser_def updateUserFailed_def
        split: option.splits sum.splits prod.splits)
  have login1: "status (loginUser env db b) = 200 \<longrightarrow>
      length (usersIn (body (loginUser env db b))) = 1"
    by (auto simp: loginUser_def Let_def split: option.splits sum.splits)
  have admin1: "status (fst (registerAdmin env db b)) = 201 \<longrightarrow>
      length (usersIn (body (fst (registerAdmin env db b)))) = 1"
    by (auto simp: registerAdmin_def split: option.splits sum.splits prod.splits)
  have client1: "status (fst (registerClient env db b)) = 201 \<longrightarrow>
      length (usersIn (body (fst (registerClient env db b)))) = 1"
    by (auto simp: registerClient_def Let_def split: option.splits sum.splits prod.splits)
  have updated1: "status (fst (updateUser env db i b)) = 200 \<longrightarrow>
      length (usersIn (body (fst (updateUser env db i b)))) = 1"
    by (auto simp: updateUser_def updateUserFailed_def
        split: option.splits sum.splits prod.splits)
  from login admin client listed updated login1 admin1 client1 updated1 show ?thesis
    by blast
qed

theorem responses_hide_password_witness:
  "status (loginUser example_env example_users login_body) = 200
   \<and> length (usersIn (body (loginUser example_env example_users login_body))) = 1
   \<and> list_all (\<lambda>u. password u = None)
        (usersIn (body (loginUser example_env example_users login_body)))
   \<and> storedPassword example_users ''u1'' \<noteq> None"
proof -
  have ok: "status (loginUser example_env example_users login_body) = 200"
    by code_simp
  have stored: "storedPassword example_users ''u1'' \<noteq> None"
    by code_simp
  from responses_hide_password [of example_env example_users login_body "''u1''"] ok stored
  show ?thesis
    by (simp add: list_all_iff)
qed

end
